theory Spec2Isabelle
  imports Complex_Main
begin

section \<open>RDF terms and the output graph\<close>

text \<open>
  The converter of \<^verbatim>\<open>gaia_interchange/coldstart2gaia.py\<close> builds an rdflib graph.
  A member of one of the four namespaces the converter uses (\<^verbatim>\<open>AIDA.system\<close>,
  \<^verbatim>\<open>RDF.type\<close>, ...) is kept symbolic as the namespace and the local name, since the
  base URIs of \<^verbatim>\<open>AIDA\<close> and \<^verbatim>\<open>AIDA_PROGRAM_ONTOLOGY\<close> are defined in
  \<^verbatim>\<open>aida_rdf_ontologies\<close>. \<^verbatim>\<open>BNode()\<close> mints a blank node that no earlier call
  returned: \<open>BNode k\<close> is the blank node of the \<open>k\<close>-th call. \<open>UUIDRef b k\<close> is
  \<^verbatim>\<open>URIRef(b + '/' + str(u))\<close> for the \<open>k\<close>-th value \<^verbatim>\<open>u\<close> that \<^verbatim>\<open>uuid4()\<close> returned.
  A Python \<^verbatim>\<open>float\<close> is a \<open>real\<close>: the converter only stores confidences and tests
  them for truth, it computes nothing with them.
\<close>

datatype namespace = AIDA | AIDA_PROGRAM_ONTOLOGY | RDF | SKOS

datatype literal = LitStr string | LitInt int | LitFloat real

datatype rdf_identifier =
    NsRef namespace string
  | URIRef string
  | UUIDRef string nat
  | BNode nat
  | Literal literal

type_synonym triple = "rdf_identifier \<times> rdf_identifier \<times> rdf_identifier"

section \<open>The ColdStart knowledge base\<close>

text \<open>
  \<open>OtherNode\<close> stands for a \<^verbatim>\<open>Node\<close> that is an instance of none of the three classes
  \<^verbatim>\<open>to_identifier\<close> accepts.
\<close>

datatype node =
    is_EntityNode: EntityNode string
  | is_EventNode: EventNode string
  | is_StringNode: StringNode string
  | OtherNode string

datatype span = Span (span_start: int) (span_end: int)

datatype provenance = Provenance (doc_id: string) (predicate_justifications: "span list")

datatype mention_type = CANONICAL_MENTION | OtherMention string

text \<open>
  The classes of assertions the converter names. The attribute \<^verbatim>\<open>obj\<close> is a type code
  on a type assertion and the mention string on an entity mention (selector \<open>obj\<close>), and
  a node on a relation (selector \<open>obj_node\<close>).
\<close>

datatype assertion =
    TypeAssertion (sbj: node) (obj: string)
  | RelationAssertion (sbj: node) (relation: string) (obj_node: node)
      (justifications: provenance)
  | EventMentionAssertion (sbj: node) (argument_role: string) (argument: node)
      (justifications: provenance)
  | EntityMentionAssertion (sbj: node) (mention_type: mention_type) (obj: string)
      (justifications: provenance)
  | LinkAssertion (sbj: node) (global_id: string)

datatype assertion_class =
    TypeAssertion_class
  | RelationAssertion_class
  | EventMentionAssertion_class
  | EntityMentionAssertion_class
  | LinkAssertion_class

fun class_of :: "assertion \<Rightarrow> assertion_class" where
  "class_of (TypeAssertion _ _) = TypeAssertion_class"
| "class_of (RelationAssertion _ _ _ _) = RelationAssertion_class"
| "class_of (EventMentionAssertion _ _ _ _) = EventMentionAssertion_class"
| "class_of (EntityMentionAssertion _ _ _ _) = EntityMentionAssertion_class"
| "class_of (LinkAssertion _ _) = LinkAssertion_class"

record cold_start_kb =
  all_assertions :: "assertion list"
  assertions_to_confidences :: "assertion \<rightharpoonup> real"

section \<open>Node generators\<close>

datatype node_generator =
    BlankNodeGenerator
  | UUIDNodeGenerator string
  | SequentialIDNodeGenerator nat string

record converter =
  entity_node_generator :: node_generator
  event_node_generator :: node_generator
  string_node_generator :: node_generator
  assertion_node_generator :: node_generator

datatype error =
    CheckArgFailed string
  | CheckNotNoneFailed string
  | NotImplementedError string

text \<open>
  The state of one run of \<^verbatim>\<open>convert_coldstart_to_gaia\<close>: the graph \<^verbatim>\<open>g\<close>, the
  dictionary \<^verbatim>\<open>object_to_uri\<close>, the four generators of \<^verbatim>\<open>self\<close> (each its own
  object, as \<^verbatim>\<open>from_parameters\<close> builds them; a converter whose fields hold one and the
  same \<^verbatim>\<open>SequentialIDNodeGenerator\<close> object would share its counter, which this state
  does not express), the table of untranslatable assertions
  (a \<^verbatim>\<open>defaultdict(int)\<close> keyed by \<^verbatim>\<open>str(assertion.__class__)\<close>, here by the class),
  and how many times \<^verbatim>\<open>BNode()\<close> and \<^verbatim>\<open>uuid4()\<close> have been called.
\<close>

record conv_state =
  g :: "triple set"
  object_to_uri :: "node \<rightharpoonup> rdf_identifier"
  self :: converter
  untranslatable_assertions :: "assertion_class \<rightharpoonup> nat"
  bnodes_minted :: nat
  uuids_drawn :: nat

definition digit_char :: "nat \<Rightarrow> char" where
  "digit_char d = char_of (48 + d)"

fun str :: "nat \<Rightarrow> string" where
  "str n = (if n < 10 then [digit_char n] else str (n div 10) @ [digit_char (n mod 10)])"

definition new_BNode :: "conv_state \<Rightarrow> rdf_identifier \<times> conv_state" where
  "new_BNode s = (BNode (bnodes_minted s), s\<lparr>bnodes_minted := bnodes_minted s + 1\<rparr>)"

fun next_node :: "node_generator \<Rightarrow> conv_state \<Rightarrow> rdf_identifier \<times> node_generator \<times> conv_state" where
  "next_node BlankNodeGenerator s =
     (let (ret, s1) = new_BNode s in (ret, BlankNodeGenerator, s1))"
| "next_node (UUIDNodeGenerator base_uri) s =
     (UUIDRef base_uri (uuids_drawn s), UUIDNodeGenerator base_uri,
      s\<lparr>uuids_drawn := uuids_drawn s + 1\<rparr>)"
| "next_node (SequentialIDNodeGenerator next_id base_uri) s =
     (URIRef (base_uri @ ''/'' @ str next_id),
      SequentialIDNodeGenerator (next_id + 1) base_uri, s)"

definition entity_next_node :: "conv_state \<Rightarrow> rdf_identifier \<times> conv_state" where
  "entity_next_node s =
     (let (uri, gen, s1) = next_node (entity_node_generator (self s)) s
      in (uri, s1\<lparr>self := (self s1)\<lparr>entity_node_generator := gen\<rparr>\<rparr>))"

definition event_next_node :: "conv_state \<Rightarrow> rdf_identifier \<times> conv_state" where
  "event_next_node s =
     (let (uri, gen, s1) = next_node (event_node_generator (self s)) s
      in (uri, s1\<lparr>self := (self s1)\<lparr>event_node_generator := gen\<rparr>\<rparr>))"

definition string_next_node :: "conv_state \<Rightarrow> rdf_identifier \<times> conv_state" where
  "string_next_node s =
     (let (uri, gen, s1) = next_node (string_node_generator (self s)) s
      in (uri, s1\<lparr>self := (self s1)\<lparr>string_node_generator := gen\<rparr>\<rparr>))"

definition assertion_next_node :: "conv_state \<Rightarrow> rdf_identifier \<times> conv_state" where
  "assertion_next_node s =
     (let (uri, gen, s1) = next_node (assertion_node_generator (self s)) s
      in (uri, s1\<lparr>self := (self s1)\<lparr>assertion_node_generator := gen\<rparr>\<rparr>))"

definition from_parameters :: "string option \<Rightarrow> converter" where
  "from_parameters params =
     (case params of
        Some base_uri \<Rightarrow>
          \<lparr>entity_node_generator = SequentialIDNodeGenerator 0 (base_uri @ ''/entities''),
           event_node_generator = SequentialIDNodeGenerator 0 (base_uri @ ''/events''),
           string_node_generator = BlankNodeGenerator,
           assertion_node_generator = SequentialIDNodeGenerator 0 (base_uri @ ''/assertions'')\<rparr>
      | None \<Rightarrow>
          \<lparr>entity_node_generator = BlankNodeGenerator,
           event_node_generator = BlankNodeGenerator,
           string_node_generator = BlankNodeGenerator,
           assertion_node_generator = BlankNodeGenerator\<rparr>)"

section \<open>The utility functions of the converter\<close>

definition g_add :: "triple \<Rightarrow> conv_state \<Rightarrow> conv_state" where
  "g_add t s = s\<lparr>g := insert t (g s)\<rparr>"

text \<open>
  \<^verbatim>\<open>associate_with_system\<close> checks that its argument is an \<^verbatim>\<open>Identifier\<close>; every value
  of type \<open>rdf_identifier\<close> is one, so the check has no failing branch here.
\<close>

definition associate_with_system :: "rdf_identifier \<Rightarrow> rdf_identifier \<Rightarrow> conv_state \<Rightarrow> conv_state" where
  "associate_with_system system_node ident s = g_add (ident, NsRef AIDA ''system'', system_node) s"

definition mark_single_assertion_confidence ::
  "rdf_identifier \<Rightarrow> rdf_identifier \<Rightarrow> real \<Rightarrow> conv_state \<Rightarrow> conv_state" where
  "mark_single_assertion_confidence system_node reified_assertion confidence s =
     (let (confidence_blank_node, s1) = new_BNode s;
          s2 = g_add (reified_assertion, NsRef AIDA ''confidence'', confidence_blank_node) s1;
          s3 = g_add (confidence_blank_node, NsRef AIDA ''confidenceValue'',
                      Literal (LitFloat confidence)) s2
      in g_add (confidence_blank_node, NsRef AIDA ''system'', system_node) s3)"

text \<open>
  \<^verbatim>\<open>to_identifier\<close> first checks the class of the node, then looks the node up in
  \<^verbatim>\<open>object_to_uri\<close> and only on a miss asks the generator of the node's class for a new
  token, which it stores. Its last branch formats the node into the message; no node
  reaches it after the check, and the model keeps the fixed part of the message.
\<close>

definition to_identifier :: "node \<Rightarrow> conv_state \<Rightarrow> (error + rdf_identifier) \<times> conv_state" where
  "to_identifier node s =
     (if \<not> (is_EntityNode node \<or> is_EventNode node \<or> is_StringNode node)
      then (Inl (CheckArgFailed []), s)
      else (case object_to_uri s node of
              Some uri \<Rightarrow> (Inr uri, s)
            | None \<Rightarrow>
                (if is_EntityNode node then
                   (let (uri, s1) = entity_next_node s
                    in (Inr uri, s1\<lparr>object_to_uri := (object_to_uri s1)(node \<mapsto> uri)\<rparr>))
                 else if is_EventNode node then
                   (let (uri, s1) = event_next_node s
                    in (Inr uri, s1\<lparr>object_to_uri := (object_to_uri s1)(node \<mapsto> uri)\<rparr>))
                 else if is_StringNode node then
                   (let (uri, s1) = string_next_node s
                    in (Inr uri, s1\<lparr>object_to_uri := (object_to_uri s1)(node \<mapsto> uri)\<rparr>))
                 else (Inl (NotImplementedError ''Cannot make a URI for ''), s))))"

text \<open>
  One pass of the loop of \<^verbatim>\<open>register_justifications\<close>. The guards \<^verbatim>\<open>if confidence:\<close> and
  \<^verbatim>\<open>if string:\<close> test truth: \<^verbatim>\<open>None\<close>, the float zero and the empty string are false.
\<close>

definition register_justification ::
  "rdf_identifier \<Rightarrow> rdf_identifier \<Rightarrow> provenance \<Rightarrow> string option \<Rightarrow> real option \<Rightarrow> span
     \<Rightarrow> conv_state \<Rightarrow> conv_state" where
  "register_justification system_node entity provenance string confidence justification s =
     (let (justification_node, s1) = new_BNode s;
          s2 = (case confidence of
                  None \<Rightarrow> s1
                | Some c \<Rightarrow>
                    if c \<noteq> 0
                    then mark_single_assertion_confidence system_node justification_node c s1
                    else s1);
          s3 = associate_with_system system_node justification_node s2;
          s4 = g_add (justification_node, NsRef RDF ''type'', NsRef AIDA ''TextProvenance'') s3;
          s5 = g_add (justification_node, NsRef AIDA ''source'',
                      Literal (LitStr (doc_id provenance))) s4;
          s6 = g_add (justification_node, NsRef AIDA ''startOffset'',
                      Literal (LitInt (span_start justification))) s5;
          s7 = g_add (justification_node, NsRef AIDA ''endOffsetInclusive'',
                      Literal (LitInt (span_end justification + 1))) s6;
          s8 = g_add (entity, NsRef AIDA ''justifiedBy'', justification_node) s7
      in case string of
           None \<Rightarrow> s8
         | Some label \<Rightarrow>
             if label \<noteq> []
             then g_add (justification_node, NsRef SKOS ''prefLabel'', Literal (LitStr label)) s8
             else s8)"

fun register_loop ::
  "rdf_identifier \<Rightarrow> rdf_identifier \<Rightarrow> provenance \<Rightarrow> string option \<Rightarrow> real option \<Rightarrow> span list
     \<Rightarrow> conv_state \<Rightarrow> conv_state" where
  "register_loop system_node entity provenance string confidence [] s = s"
| "register_loop system_node entity provenance string confidence (justification # rest) s =
     register_loop system_node entity provenance string confidence rest
       (register_justification system_node entity provenance string confidence justification s)"

definition register_justifications ::
  "rdf_identifier \<Rightarrow> rdf_identifier \<Rightarrow> provenance \<Rightarrow> string option \<Rightarrow> real option
     \<Rightarrow> conv_state \<Rightarrow> conv_state" where
  "register_justifications system_node entity provenance string confidence s =
     register_loop system_node entity provenance string confidence
       (predicate_justifications provenance) s"

text \<open>
  \<^verbatim>\<open>AIDA_PROGRAM_ONTOLOGY_LUT\<close> is imported from \<^verbatim>\<open>aida_rdf_ontologies\<close>; the table
  is a parameter \<open>lut\<close> of the model.
\<close>

definition to_ontology_type :: "(string \<rightharpoonup> rdf_identifier) \<Rightarrow> string \<Rightarrow> error + rdf_identifier" where
  "to_ontology_type lut ontology_type =
     (if CHR '':'' \<in> set ontology_type then Inl (NotImplementedError ''Not implemented yet'')
      else if ontology_type = ''PER'' then Inr (NsRef AIDA_PROGRAM_ONTOLOGY ''Person'')
      else if ontology_type = ''ORG'' then Inr (NsRef AIDA_PROGRAM_ONTOLOGY ''Organization'')
      else if ontology_type = ''LOC'' then Inr (NsRef AIDA_PROGRAM_ONTOLOGY ''Location'')
      else if ontology_type = ''FAC'' then Inr (NsRef AIDA_PROGRAM_ONTOLOGY ''Facility'')
      else if ontology_type = ''GPE'' then
        Inr (NsRef AIDA_PROGRAM_ONTOLOGY ''GeopoliticalEntity'')
      else if ontology_type = ''STRING'' \<or> ontology_type = ''String'' then
        Inr (NsRef AIDA_PROGRAM_ONTOLOGY ''String'')
      else (case lut ontology_type of
              Some t \<Rightarrow> Inr t
            | None \<Rightarrow>
                Inl (NotImplementedError (''Cannot interpret ontology type '' @ ontology_type))))"

section \<open>The translators\<close>

text \<open>
  Each translator returns the flag or the error it raises, and the state it leaves: an
  exception does not undo what the translator did before it was raised.
\<close>

definition translate_type ::
  "(string \<rightharpoonup> rdf_identifier) \<Rightarrow> rdf_identifier \<Rightarrow> assertion \<Rightarrow> real option \<Rightarrow> conv_state
     \<Rightarrow> (error + bool) \<times> conv_state" where
  "translate_type lut system_node cs_assertion confidence s =
     (if confidence \<noteq> None
      then (Inl (CheckArgFailed
                  ''Type assertions should not have confidences in ColdStart''), s)
      else if is_EntityNode (sbj cs_assertion) then
        (let (rdf_assertion, s1) = assertion_next_node s
         in case to_identifier (sbj cs_assertion) s1 of
              (Inl e, s2) \<Rightarrow> (Inl e, s2)
            | (Inr entity, s2) \<Rightarrow>
                (case to_ontology_type lut (obj cs_assertion) of
                   Inl e \<Rightarrow> (Inl e, s2)
                 | Inr ontology_type \<Rightarrow>
                     (let s3 = g_add (rdf_assertion, NsRef RDF ''type'', NsRef RDF ''Statement'') s2;
                          s4 = g_add (rdf_assertion, NsRef RDF ''subject'', entity) s3;
                          s5 = g_add (rdf_assertion, NsRef RDF ''predicate'', NsRef RDF ''type'') s4;
                          s6 = g_add (rdf_assertion, NsRef RDF ''object'', ontology_type) s5
                      in (Inr True, associate_with_system system_node rdf_assertion s6))))
      else (Inr False, s))"

definition translate_relation ::
  "(string \<rightharpoonup> rdf_identifier) \<Rightarrow> rdf_identifier \<Rightarrow> assertion \<Rightarrow> real option \<Rightarrow> conv_state
     \<Rightarrow> (error + bool) \<times> conv_state" where
  "translate_relation lut system_node cs_assertion confidence s =
     (if confidence = None
      then (Inl (CheckNotNoneFailed ''Relations must have confidences''), s)
      else if is_EntityNode (sbj cs_assertion) then
        (case to_identifier (sbj cs_assertion) s of
           (Inl e, s1) \<Rightarrow> (Inl e, s1)
         | (Inr sbj_id, s1) \<Rightarrow>
             (case to_identifier (obj_node cs_assertion) s1 of
                (Inl e, s2) \<Rightarrow> (Inl e, s2)
              | (Inr obj_id, s2) \<Rightarrow>
                  (let (rdf_assertion, s3) = assertion_next_node s2
                   in case to_ontology_type lut (relation cs_assertion) of
                        Inl e \<Rightarrow> (Inl e, s3)
                      | Inr ontology_type \<Rightarrow>
                          (let s4 = g_add (rdf_assertion, NsRef RDF ''type'', ontology_type) s3;
                               s5 = g_add (rdf_assertion, NsRef RDF ''subject'', sbj_id) s4;
                               s6 = g_add (rdf_assertion, NsRef RDF ''object'', obj_id) s5;
                               s7 = (case confidence of
                                       None \<Rightarrow> s6
                                     | Some c \<Rightarrow>
                                         (let (confidence_node, t1) = new_BNode s6;
                                              t2 = g_add (rdf_assertion, NsRef AIDA ''confidence'',
                                                          confidence_node) t1
                                          in g_add (confidence_node, NsRef AIDA ''confidenceValue'',
                                                    Literal (LitFloat c)) t2))
                           in (Inr True,
                               register_justifications system_node rdf_assertion
                                 (justifications cs_assertion) None None s7)))))
      else (Inr True, s))"

definition translate_event_argument ::
  "(string \<rightharpoonup> rdf_identifier) \<Rightarrow> rdf_identifier \<Rightarrow> assertion \<Rightarrow> real option \<Rightarrow> conv_state
     \<Rightarrow> (error + bool) \<times> conv_state" where
  "translate_event_argument lut system_node cs_assertion confidence s =
     (if confidence = None
      then (Inl (CheckNotNoneFailed ''Relations must have confidences''), s)
      else if is_EventNode (sbj cs_assertion) then
        (case to_identifier (sbj cs_assertion) s of
           (Inl e, s1) \<Rightarrow> (Inl e, s1)
         | (Inr sbj_id, s1) \<Rightarrow>
             (case to_identifier (argument cs_assertion) s1 of
                (Inl e, s2) \<Rightarrow> (Inl e, s2)
              | (Inr obj_id, s2) \<Rightarrow>
                  (let (rdf_assertion, s3) = assertion_next_node s2
                   in case to_ontology_type lut (argument_role cs_assertion) of
                        Inl e \<Rightarrow> (Inl e, s3)
                      | Inr ontology_type \<Rightarrow>
                          (let s4 = g_add (rdf_assertion, NsRef RDF ''type'', ontology_type) s3;
                               s5 = g_add (rdf_assertion, NsRef RDF ''subject'', sbj_id) s4;
                               s6 = g_add (rdf_assertion, NsRef RDF ''object'', obj_id) s5;
                               s7 = (case confidence of
                                       None \<Rightarrow> s6
                                     | Some c \<Rightarrow>
                                         (let (confidence_node, t1) = new_BNode s6;
                                              t2 = g_add (rdf_assertion, NsRef AIDA ''confidence'',
                                                          confidence_node) t1
                                          in g_add (confidence_node, NsRef AIDA ''confidenceValue'',
                                                    Literal (LitFloat c)) t2))
                           in (Inr True,
                               register_justifications system_node rdf_assertion
                                 (justifications cs_assertion) None None s7)))))
      else (Inr True, s))"

text \<open>
  \<^verbatim>\<open>translate_entity_mention\<close> resolves \<^verbatim>\<open>assertion.sbj\<close>, where \<^verbatim>\<open>assertion\<close> is not
  its parameter \<^verbatim>\<open>cs_assertion\<close> but the loop variable of the enclosing
  \<^verbatim>\<open>convert_coldstart_to_gaia\<close>, read when the translator runs. The model takes that
  variable as the argument \<open>assertion\<close>.
\<close>

definition translate_entity_mention ::
  "rdf_identifier \<Rightarrow> assertion \<Rightarrow> assertion \<Rightarrow> real option \<Rightarrow> conv_state
     \<Rightarrow> (error + bool) \<times> conv_state" where
  "translate_entity_mention system_node assertion cs_assertion confidence s =
     (if confidence = None
      then (Inl (CheckNotNoneFailed ''Entity mentions must have confidences''), s)
      else (case to_identifier (sbj assertion) s of
              (Inl e, s1) \<Rightarrow> (Inl e, s1)
            | (Inr entity_uri, s1) \<Rightarrow>
                (let s2 = associate_with_system system_node entity_uri s1;
                     s3 = (if mention_type cs_assertion = CANONICAL_MENTION
                           then g_add (entity_uri, NsRef SKOS ''prefLabel'',
                                       Literal (LitStr (obj cs_assertion))) s2
                           else s2)
                 in (Inr True,
                     register_justifications system_node entity_uri
                       (justifications cs_assertion) (Some (obj cs_assertion)) confidence s3))))"

definition translate_link ::
  "assertion \<Rightarrow> real option \<Rightarrow> conv_state \<Rightarrow> (error + bool) \<times> conv_state" where
  "translate_link cs_assertion confidence s =
     (case to_identifier (sbj cs_assertion) s of
        (Inl e, s1) \<Rightarrow> (Inl e, s1)
      | (Inr entity_uri, s1) \<Rightarrow>
          (let (link_assertion, s2) = new_BNode s1;
               s3 = g_add (entity_uri, NsRef AIDA ''link'', link_assertion) s2;
               s4 = g_add (link_assertion, NsRef AIDA ''linkTarget'',
                           Literal (LitStr (global_id cs_assertion))) s3;
               s5 = (case confidence of
                       None \<Rightarrow> s4
                     | Some c \<Rightarrow>
                         (let (confidence_node, t1) = new_BNode s4;
                              t2 = g_add (link_assertion, NsRef AIDA ''confidence'',
                                          confidence_node) t1
                          in g_add (confidence_node, NsRef AIDA ''confidenceValue'',
                                    Literal (LitFloat c)) t2))
           in (Inr True, s5)))"

section \<open>The conversion driver\<close>

type_synonym translator =
  "assertion \<Rightarrow> real option \<Rightarrow> conv_state \<Rightarrow> (error + bool) \<times> conv_state"

text \<open>
  The dictionary \<^verbatim>\<open>assertions_to_translator\<close> has four keys; \<^verbatim>\<open>EventMentionAssertion\<close>
  is not one of them. The argument \<open>assertion\<close> is the loop variable that
  \<^verbatim>\<open>translate_entity_mention\<close> reads.
\<close>

definition assertions_to_translator ::
  "(string \<rightharpoonup> rdf_identifier) \<Rightarrow> rdf_identifier \<Rightarrow> assertion \<Rightarrow> assertion_class
     \<Rightarrow> translator option" where
  "assertions_to_translator lut system_node assertion cls =
     (case cls of
        TypeAssertion_class \<Rightarrow> Some (translate_type lut system_node)
      | EntityMentionAssertion_class \<Rightarrow> Some (translate_entity_mention system_node assertion)
      | LinkAssertion_class \<Rightarrow> Some translate_link
      | RelationAssertion_class \<Rightarrow> Some (translate_relation lut system_node)
      | EventMentionAssertion_class \<Rightarrow> None)"

definition count_untranslatable :: "assertion \<Rightarrow> conv_state \<Rightarrow> conv_state" where
  "count_untranslatable assertion s =
     s\<lparr>untranslatable_assertions :=
         (untranslatable_assertions s)
           (class_of assertion \<mapsto>
              (case untranslatable_assertions s (class_of assertion) of
                 None \<Rightarrow> 0
               | Some n \<Rightarrow> n) + 1)\<rparr>"

definition loop_body ::
  "(string \<rightharpoonup> rdf_identifier) \<Rightarrow> rdf_identifier \<Rightarrow> cold_start_kb \<Rightarrow> assertion \<Rightarrow> conv_state
     \<Rightarrow> (error + unit) \<times> conv_state" where
  "loop_body lut system_node cs_kb assertion s =
     (let confidence = assertions_to_confidences cs_kb assertion
      in case assertions_to_translator lut system_node assertion (class_of assertion) of
           None \<Rightarrow> (Inr (), count_untranslatable assertion s)
         | Some assertion_translator \<Rightarrow>
             (case assertion_translator assertion confidence s of
                (Inl e, s1) \<Rightarrow> (Inl e, s1)
              | (Inr translated, s1) \<Rightarrow>
                  (Inr (), if translated then s1 else count_untranslatable assertion s1)))"

fun translate_all ::
  "(string \<rightharpoonup> rdf_identifier) \<Rightarrow> rdf_identifier \<Rightarrow> cold_start_kb \<Rightarrow> assertion list \<Rightarrow> conv_state
     \<Rightarrow> (error + unit) \<times> conv_state" where
  "translate_all lut system_node cs_kb [] s = (Inr (), s)"
| "translate_all lut system_node cs_kb (assertion # rest) s =
     (case loop_body lut system_node cs_kb assertion s of
        (Inl e, s1) \<Rightarrow> (Inl e, s1)
      | (Inr _, s1) \<Rightarrow> translate_all lut system_node cs_kb rest s1)"

text \<open>
  A run starts from an empty graph, an empty \<^verbatim>\<open>object_to_uri\<close> and an empty table, with
  the generators of the converter it is called on. It returns the graph, or the error
  that ended it, and the state it stopped in. The warning it logs and the namespace
  prefixes it binds are not part of the model.
\<close>

definition initial_state :: "converter \<Rightarrow> conv_state" where
  "initial_state cnv =
     \<lparr>g = {}, object_to_uri = Map.empty, self = cnv,
      untranslatable_assertions = Map.empty, bnodes_minted = 0, uuids_drawn = 0\<rparr>"

definition convert_coldstart_to_gaia ::
  "(string \<rightharpoonup> rdf_identifier) \<Rightarrow> converter \<Rightarrow> string \<Rightarrow> cold_start_kb
     \<Rightarrow> (error + triple set) \<times> conv_state" where
  "convert_coldstart_to_gaia lut cnv system_uri cs_kb =
     (case translate_all lut (URIRef system_uri) cs_kb (all_assertions cs_kb)
             (initial_state cnv) of
        (Inl e, s) \<Rightarrow> (Inl e, s)
      | (Inr _, s) \<Rightarrow> (Inr (g s), s))"

section \<open>What one pass of the justification loop adds\<close>

text \<open>
  The triples one pass of \<^verbatim>\<open>register_justifications\<close> adds when \<open>k\<close> blank nodes
  were minted before it, and the number of blank nodes it mints. Both are used to state
  what the loop computes.
\<close>

definition confidence_step :: "real option \<Rightarrow> nat" where
  "confidence_step confidence = (case confidence of None \<Rightarrow> 1 | Some c \<Rightarrow> if c \<noteq> 0 then 2 else 1)"

definition justification_triples ::
  "rdf_identifier \<Rightarrow> rdf_identifier \<Rightarrow> provenance \<Rightarrow> string option \<Rightarrow> real option \<Rightarrow> nat \<Rightarrow> span
     \<Rightarrow> triple set" where
  "justification_triples system_node entity provenance string confidence k justification =
     {(BNode k, NsRef AIDA ''system'', system_node),
      (BNode k, NsRef RDF ''type'', NsRef AIDA ''TextProvenance''),
      (BNode k, NsRef AIDA ''source'', Literal (LitStr (doc_id provenance))),
      (BNode k, NsRef AIDA ''startOffset'', Literal (LitInt (span_start justification))),
      (BNode k, NsRef AIDA ''endOffsetInclusive'', Literal (LitInt (span_end justification + 1))),
      (entity, NsRef AIDA ''justifiedBy'', BNode k)}
     \<union> (case confidence of
          None \<Rightarrow> {}
        | Some c \<Rightarrow>
            if c \<noteq> 0
            then {(BNode k, NsRef AIDA ''confidence'', BNode (k + 1)),
                  (BNode (k + 1), NsRef AIDA ''confidenceValue'', Literal (LitFloat c)),
                  (BNode (k + 1), NsRef AIDA ''system'', system_node)}
            else {})
     \<union> (case string of
          None \<Rightarrow> {}
        | Some label \<Rightarrow>
            if label \<noteq> [] then {(BNode k, NsRef SKOS ''prefLabel'', Literal (LitStr label))}
            else {})"

section \<open>Example inputs\<close>

text \<open>
  A run of a converter without \<^verbatim>\<open>base_uri\<close>, which mints blank nodes only, and one
  assertion of each class.
\<close>

definition blank_start :: conv_state where
  "blank_start = initial_state (from_parameters None)"

definition event_argument_example :: assertion where
  "event_argument_example =
     EventMentionAssertion (EventNode ''E1'') ''attacker'' (EntityNode ''e2'')
       (Provenance ''D1'' [Span 0 5])"

definition relation_example :: assertion where
  "relation_example =
     RelationAssertion (EventNode ''E1'') ''partOf'' (EntityNode ''e2'')
       (Provenance ''D1'' [Span 0 5])"

definition link_example :: assertion where
  "link_example = LinkAssertion (EntityNode ''e1'') ''Q42''"

definition type_example :: assertion where
  "type_example = TypeAssertion (EntityNode ''e1'') ''PER''"

definition mention_example :: assertion where
  "mention_example =
     EntityMentionAssertion (EntityNode ''e1'') CANONICAL_MENTION ''Biden''
       (Provenance ''D1'' [Span 0 5])"

definition other_mention_example :: assertion where
  "other_mention_example =
     EntityMentionAssertion (EntityNode ''e2'') CANONICAL_MENTION ''Biden''
       (Provenance ''D1'' [Span 0 5])"

definition example_lut :: "string \<rightharpoonup> rdf_identifier" where
  "example_lut =
     [''attacker'' \<mapsto> NsRef AIDA_PROGRAM_ONTOLOGY ''attacker'',
      ''partOf'' \<mapsto> NsRef AIDA_PROGRAM_ONTOLOGY ''partOf'']"

section \<open>Projections of the state\<close>

lemma g_add_simps [simp]:
  "g (g_add t s) = insert t (g s)"
  "object_to_uri (g_add t s) = object_to_uri s"
  "self (g_add t s) = self s"
  "untranslatable_assertions (g_add t s) = untranslatable_assertions s"
  "bnodes_minted (g_add t s) = bnodes_minted s"
  "uuids_drawn (g_add t s) = uuids_drawn s"
  by (simp_all add: g_add_def)

lemma new_BNode_simps [simp]:
  "fst (new_BNode s) = BNode (bnodes_minted s)"
  "g (snd (new_BNode s)) = g s"
  "object_to_uri (snd (new_BNode s)) = object_to_uri s"
  "self (snd (new_BNode s)) = self s"
  "untranslatable_assertions (snd (new_BNode s)) = untranslatable_assertions s"
  "bnodes_minted (snd (new_BNode s)) = bnodes_minted s + 1"
  "uuids_drawn (snd (new_BNode s)) = uuids_drawn s"
  by (simp_all add: new_BNode_def)

lemma next_node_simps [simp]:
  "g (snd (snd (next_node gen s))) = g s"
  "object_to_uri (snd (snd (next_node gen s))) = object_to_uri s"
  "self (snd (snd (next_node gen s))) = self s"
  "untranslatable_assertions (snd (snd (next_node gen s))) = untranslatable_assertions s"
  by (cases gen; simp add: split_beta)+

lemma next_node_bnodes: "bnodes_minted s \<le> bnodes_minted (snd (snd (next_node gen s)))"
  by (cases gen) (simp_all add: split_beta)

lemma entity_next_node_simps [simp]:
  "g (snd (entity_next_node s)) = g s"
  "object_to_uri (snd (entity_next_node s)) = object_to_uri s"
  "untranslatable_assertions (snd (entity_next_node s)) = untranslatable_assertions s"
  by (simp_all add: entity_next_node_def split_beta)

lemma event_next_node_simps [simp]:
  "g (snd (event_next_node s)) = g s"
  "object_to_uri (snd (event_next_node s)) = object_to_uri s"
  "untranslatable_assertions (snd (event_next_node s)) = untranslatable_assertions s"
  by (simp_all add: event_next_node_def split_beta)

lemma string_next_node_simps [simp]:
  "g (snd (string_next_node s)) = g s"
  "object_to_uri (snd (string_next_node s)) = object_to_uri s"
  "untranslatable_assertions (snd (string_next_node s)) = untranslatable_assertions s"
  by (simp_all add: string_next_node_def split_beta)

lemma assertion_next_node_simps [simp]:
  "g (snd (assertion_next_node s)) = g s"
  "object_to_uri (snd (assertion_next_node s)) = object_to_uri s"
  "untranslatable_assertions (snd (assertion_next_node s)) = untranslatable_assertions s"
  by (simp_all add: assertion_next_node_def split_beta)

lemma associate_with_system_simps [simp]:
  "g (associate_with_system sys n s) = insert (n, NsRef AIDA ''system'', sys) (g s)"
  "object_to_uri (associate_with_system sys n s) = object_to_uri s"
  "bnodes_minted (associate_with_system sys n s) = bnodes_minted s"
  by (simp_all add: associate_with_system_def)

lemma mark_single_assertion_confidence_simps [simp]:
  "g (mark_single_assertion_confidence sys n c s) =
     {(n, NsRef AIDA ''confidence'', BNode (bnodes_minted s)),
      (BNode (bnodes_minted s), NsRef AIDA ''confidenceValue'', Literal (LitFloat c)),
      (BNode (bnodes_minted s), NsRef AIDA ''system'', sys)} \<union> g s"
  "object_to_uri (mark_single_assertion_confidence sys n c s) = object_to_uri s"
  "bnodes_minted (mark_single_assertion_confidence sys n c s) = bnodes_minted s + 1"
  by (auto simp add: mark_single_assertion_confidence_def split_beta)

lemma count_untranslatable_simps [simp]:
  "g (count_untranslatable a s) = g s"
  "object_to_uri (count_untranslatable a s) = object_to_uri s"
  "bnodes_minted (count_untranslatable a s) = bnodes_minted s"
  by (simp_all add: count_untranslatable_def)

lemmas conv_defs =
  convert_coldstart_to_gaia_def loop_body_def assertions_to_translator_def
  count_untranslatable_def initial_state_def translate_link_def translate_relation_def
  translate_type_def translate_entity_mention_def translate_event_argument_def
  to_identifier_def entity_next_node_def event_next_node_def string_next_node_def
  assertion_next_node_def from_parameters_def new_BNode_def g_add_def
  register_justifications_def register_justification_def
  mark_single_assertion_confidence_def associate_with_system_def to_ontology_type_def

lemmas example_defs =
  blank_start_def event_argument_example_def relation_example_def link_example_def
  type_example_def mention_example_def other_mention_example_def example_lut_def

section \<open>The identity cache\<close>




lemma to_identifier_g [simp]: "g (snd (to_identifier node s)) = g s"
  by (cases node) (auto simp add: to_identifier_def split_beta split: option.splits)

section \<open>The justification encoder\<close>

lemma register_justification_g:
  "g (register_justification sys e p lbl conf j s) =
     g s \<union> justification_triples sys e p lbl conf (bnodes_minted s) j"
  by (auto simp add: register_justification_def justification_triples_def split_beta
      split: option.splits)

lemma register_justification_bnodes:
  "bnodes_minted (register_justification sys e p lbl conf j s) =
     bnodes_minted s + confidence_step conf"
  by (simp add: register_justification_def confidence_step_def split_beta Let_def
      split: option.splits)

lemma register_justification_object_to_uri [simp]:
  "object_to_uri (register_justification sys e p lbl conf j s) = object_to_uri s"
  by (simp add: register_justification_def split_beta Let_def split: option.splits)

lemma register_loop_object_to_uri [simp]:
  "object_to_uri (register_loop sys e p lbl conf js s) = object_to_uri s"
  by (induction js arbitrary: s) simp_all

lemma register_loop_bnodes:
  "bnodes_minted (register_loop sys e p lbl conf js s) =
     bnodes_minted s + length js * confidence_step conf"
  by (induction js arbitrary: s) (simp_all add: register_justification_bnodes)

lemma register_loop_g:
  "g (register_loop sys e p lbl conf js s) =
     g s \<union> (\<Union>i<length js.
              justification_triples sys e p lbl conf (bnodes_minted s + i * confidence_step conf) (js ! i))"
proof (induction js arbitrary: s)
  case Nil
  show ?case by simp
next
  case (Cons j js)
  have split_range: "{..<Suc (length js)} = insert 0 (Suc ` {..<length js})"
    by (auto simp add: lessThan_Suc_eq_insert_0)
  show ?case
    by (simp add: Cons.IH register_justification_g register_justification_bnodes
        split_range Un_assoc add.assoc add.commute [of "confidence_step conf"])
qed

lemma register_justifications_object_to_uri [simp]:
  "object_to_uri (register_justifications sys e p lbl conf s) = object_to_uri s"
  by (simp add: register_justifications_def)

lemma register_justifications_g:
  "g (register_justifications sys e p lbl conf s) =
     g s \<union> (\<Union>i<length (predicate_justifications p).
              justification_triples sys e p lbl conf
                (bnodes_minted s + i * confidence_step conf) (predicate_justifications p ! i))"
  by (simp add: register_justifications_def register_loop_g)

lemma register_justifications_bnodes:
  "bnodes_minted (register_justifications sys e p lbl conf s) =
     bnodes_minted s + length (predicate_justifications p) * confidence_step conf"
  by (simp add: register_justifications_def register_loop_bnodes)

lemma register_justifications_nth:
  assumes "i < length (predicate_justifications p)"
  shows "justification_triples sys e p lbl conf
           (bnodes_minted s + i * confidence_step conf) (predicate_justifications p ! i)
         \<subseteq> g (register_justifications sys e p lbl conf s)"
proof -
  have "i \<in> {..<length (predicate_justifications p)}"
    using assms by simp
  then show ?thesis
    unfolding register_justifications_g by blast
qed

lemma justification_triples_basic:
  "(BNode k, NsRef RDF ''type'', NsRef AIDA ''TextProvenance'')
     \<in> justification_triples sys e p lbl conf k j"
  "(BNode k, NsRef AIDA ''startOffset'', Literal (LitInt (span_start j)))
     \<in> justification_triples sys e p lbl conf k j"
  "(BNode k, NsRef AIDA ''endOffsetInclusive'', Literal (LitInt (span_end j + 1)))
     \<in> justification_triples sys e p lbl conf k j"
  by (simp_all add: justification_triples_def)

lemma justification_triples_end:
  "(n, NsRef AIDA ''endOffsetInclusive'', v) \<in> justification_triples sys e p lbl conf k j
     \<Longrightarrow> n = BNode k \<and> v = Literal (LitInt (span_end j + 1))"
  by (auto simp add: justification_triples_def split: option.splits if_splits)

lemma justification_triples_zero:
  "(n, NsRef AIDA ''confidence'', x) \<notin> justification_triples sys e p lbl (Some 0) k j"
  by (auto simp add: justification_triples_def split: option.splits if_splits)

lemma justification_triples_confidence:
  "c \<noteq> 0 \<Longrightarrow> (BNode k, NsRef AIDA ''confidence'', BNode (k + 1))
     \<in> justification_triples sys e p lbl (Some c) k j"
  "c \<noteq> 0 \<Longrightarrow> (BNode (k + 1), NsRef AIDA ''confidenceValue'', Literal (LitFloat c))
     \<in> justification_triples sys e p lbl (Some c) k j"
  by (simp_all add: justification_triples_def)

lemma confidence_step_pos: "0 < confidence_step conf"
  by (simp add: confidence_step_def split: option.splits)

lemma register_justification_zero:
  "register_justification sys e p lbl (Some 0) j s = register_justification sys e p lbl None j s"
  by (simp add: register_justification_def)

lemma register_loop_zero:
  "register_loop sys e p lbl (Some 0) js s = register_loop sys e p lbl None js s"
  by (induction js arbitrary: s) (simp_all add: register_justification_zero)

section \<open>The translators and the driver keep the cache\<close>







lemma translate_all_append:
  "translate_all lut sys kb pre s = (Inr u, s1)
     \<Longrightarrow> translate_all lut sys kb (pre @ rest) s = translate_all lut sys kb rest s1"
proof (induction pre arbitrary: s)
  case Nil
  then show ?case by simp
next
  case (Cons a pre)
  then show ?case
    by (cases "loop_body lut sys kb a s") (auto split: sum.splits)
qed

section \<open>Confidence checks and return flags of the translators\<close>

lemma translate_type_confidence:
  "translate_type lut sys a (Some c) s =
     (Inl (CheckArgFailed ''Type assertions should not have confidences in ColdStart''), s)"
  by (simp add: translate_type_def)

lemma loop_body_type_confidence:
  "assertions_to_confidences kb (TypeAssertion sb ob) = Some c
     \<Longrightarrow> loop_body lut sys kb (TypeAssertion sb ob) s =
         (Inl (CheckArgFailed ''Type assertions should not have confidences in ColdStart''), s)"
  by (simp add: loop_body_def assertions_to_translator_def translate_type_confidence)

lemma translate_relation_requires_confidence:
  "translate_relation lut sys a None s =
     (Inl (CheckNotNoneFailed ''Relations must have confidences''), s)"
  by (simp add: translate_relation_def)

lemma translate_event_argument_requires_confidence:
  "translate_event_argument lut sys a None s =
     (Inl (CheckNotNoneFailed ''Relations must have confidences''), s)"
  by (simp add: translate_event_argument_def)

lemma translate_entity_mention_requires_confidence:
  "translate_entity_mention sys a0 a None s =
     (Inl (CheckNotNoneFailed ''Entity mentions must have confidences''), s)"
  by (simp add: translate_entity_mention_def)

lemma loop_body_relation_without_confidence:
  "assertions_to_confidences kb (RelationAssertion sb rel ob js) = None
     \<Longrightarrow> loop_body lut sys kb (RelationAssertion sb rel ob js) s =
         (Inl (CheckNotNoneFailed ''Relations must have confidences''), s)"
  by (simp add: loop_body_def assertions_to_translator_def
      translate_relation_requires_confidence)

lemma loop_body_mention_without_confidence:
  "assertions_to_confidences kb (EntityMentionAssertion sb ty ob js) = None
     \<Longrightarrow> loop_body lut sys kb (EntityMentionAssertion sb ty ob js) s =
         (Inl (CheckNotNoneFailed ''Entity mentions must have confidences''), s)"
  by (simp add: loop_body_def assertions_to_translator_def
      translate_entity_mention_requires_confidence)

lemma loop_body_event_argument:
  "loop_body lut sys kb (EventMentionAssertion sb role arg js) s =
     (Inr (), count_untranslatable (EventMentionAssertion sb role arg js) s)"
  by (simp add: loop_body_def assertions_to_translator_def)

lemma translate_relation_never_declines:
  "translate_relation lut sys a conf s = (Inr flag, s') \<Longrightarrow> flag"
  by (auto simp add: translate_relation_def split_beta Let_def
      split: if_splits sum.splits prod.splits option.splits)

lemma translate_event_argument_never_declines:
  "translate_event_argument lut sys a conf s = (Inr flag, s') \<Longrightarrow> flag"
  by (auto simp add: translate_event_argument_def split_beta Let_def
      split: if_splits sum.splits prod.splits option.splits)

section \<open>The subject an entity mention is attached to\<close>

lemma translate_entity_mention_ignores_subject:
  "translate_entity_mention sys a0 (EntityMentionAssertion sb ty ob js) conf s =
     translate_entity_mention sys a0 (EntityMentionAssertion sb' ty ob js) conf s"
  by (simp add: translate_entity_mention_def Let_def split: prod.splits sum.splits)

lemma loop_body_entity_mention:
  assumes "a = EntityMentionAssertion sb ty ob js"
    and "assertions_to_confidences cs_kb a = Some c"
    and "to_identifier sb s = (Inr entity_uri, s1)"
  shows "loop_body lut system_node cs_kb a s =
           (Inr (),
            register_justifications system_node entity_uri js (Some ob) (Some c)
              (if ty = CANONICAL_MENTION
               then g_add (entity_uri, NsRef SKOS ''prefLabel'', Literal (LitStr ob))
                      (associate_with_system system_node entity_uri s1)
               else associate_with_system system_node entity_uri s1))"
  using assms
  by (simp add: loop_body_def assertions_to_translator_def translate_entity_mention_def)

section \<open>The claims\<close>

subsection \<open>C1: event-argument assertions are dispatched\<close>

text \<open>
  Claim C1: an \<^verbatim>\<open>EventMentionAssertion\<close> of the knowledge base whose subject is an event
  node and whose confidence is present is dispatched to \<^verbatim>\<open>translate_event_argument\<close>,
  the graph gains its reified triples and justifications, and it is not counted as
  untranslatable.

  The code does not do this. \<^verbatim>\<open>translate_event_argument\<close> is defined but is not a value
  of \<^verbatim>\<open>assertions_to_translator\<close>, so the lookup gives \<^verbatim>\<open>None\<close>. For a knowledge base
  holding one such assertion with confidence 0.9 the run returns the empty graph and the
  table counts one untranslatable \<^verbatim>\<open>EventMentionAssertion\<close>.
\<close>

theorem event_argument_not_dispatched:
  "convert_coldstart_to_gaia example_lut (from_parameters None) ''sys''
     \<lparr>all_assertions = [event_argument_example],
      assertions_to_confidences = [event_argument_example \<mapsto> 0.9]\<rparr> =
   (Inr {}, blank_start\<lparr>untranslatable_assertions := [EventMentionAssertion_class \<mapsto> 1]\<rparr>)"
  by (simp add: example_defs conv_defs)

subsection \<open>C2: a subject of the wrong class makes the translator decline\<close>

text \<open>
  Claim C2: for a relation whose subject is not an entity node, and for an event argument
  whose subject is not an event node, the translator returns the flag for not translated,
  and the driver counts the assertion as untranslatable.

  The code does not do this. \<^verbatim>\<open>return True\<close> of \<^verbatim>\<open>translate_relation\<close> stands after the
  \<^verbatim>\<open>if\<close>, not inside it, so a relation whose subject is an event node adds no triple and
  still returns \<^verbatim>\<open>True\<close>: the run returns the empty graph and the table stays empty.
\<close>

theorem relation_non_entity_subject_not_declined:
  "translate_relation example_lut (URIRef ''sys'') relation_example (Some 0.9) blank_start =
     (Inr True, blank_start)
   \<and> convert_coldstart_to_gaia example_lut (from_parameters None) ''sys''
        \<lparr>all_assertions = [relation_example],
         assertions_to_confidences = [relation_example \<mapsto> 0.9]\<rparr> =
      (Inr {}, blank_start)
   \<and> untranslatable_assertions blank_start = Map.empty"
  by (simp add: example_defs conv_defs)

subsection \<open>C3: resolution of a node is memoized\<close>



subsection \<open>C4: a missing confidence is a hard failure\<close>

text \<open>
  Claim C4: for a relation, an event argument or an entity mention whose confidence is
  absent the conversion fails with the required-confidence error before any triple is
  added.

  The three translators do raise (\<open>translate_relation_requires_confidence\<close>,
  \<open>translate_event_argument_requires_confidence\<close>,
  \<open>translate_entity_mention_requires_confidence\<close>), and the run fails for a relation and
  for an entity mention (\<open>loop_body_relation_without_confidence\<close>,
  \<open>loop_body_mention_without_confidence\<close>). For an event argument the conversion does
  not fail: the driver has no translator for \<^verbatim>\<open>EventMentionAssertion\<close>, so it never
  calls the one that checks. A knowledge base holding one event argument without a
  confidence is converted to the empty graph with one untranslatable assertion counted
  and no error.
\<close>

theorem event_argument_without_confidence_not_rejected:
  "convert_coldstart_to_gaia example_lut (from_parameters None) ''sys''
     \<lparr>all_assertions = [event_argument_example],
      assertions_to_confidences = Map.empty\<rparr> =
   (Inr {}, blank_start\<lparr>untranslatable_assertions := [EventMentionAssertion_class \<mapsto> 1]\<rparr>)"
  by (simp add: example_defs conv_defs)

subsection \<open>C5: a type assertion must not have a confidence\<close>

text \<open>
  Claim C5: for a type assertion with a confidence the conversion fails with the error of
  \<^verbatim>\<open>check_arg\<close>, and the graph gains no triple from that assertion. The translator
  returns the error with the state it was given; a run that reaches such an assertion
  ends with that error in the state the assertions before it produced.
\<close>

theorem type_assertion_with_confidence_fails:
  assumes "all_assertions cs_kb = before @ TypeAssertion sb ob # rest"
    and "assertions_to_confidences cs_kb (TypeAssertion sb ob) = Some c"
    and "translate_all lut (URIRef system_uri) cs_kb before (initial_state cnv) = (Inr (), s1)"
  shows "translate_type lut (URIRef system_uri) (TypeAssertion sb ob) (Some c) s1 =
           (Inl (CheckArgFailed ''Type assertions should not have confidences in ColdStart''), s1)
         \<and> convert_coldstart_to_gaia lut cnv system_uri cs_kb =
           (Inl (CheckArgFailed ''Type assertions should not have confidences in ColdStart''), s1)"
  using assms
  by (simp add: convert_coldstart_to_gaia_def translate_all_append [OF assms(3)]
      loop_body_type_confidence translate_type_confidence)

theorem type_assertion_with_confidence_fails_witness:
  "convert_coldstart_to_gaia example_lut (from_parameters None) ''sys''
     \<lparr>all_assertions = [link_example, type_example, mention_example],
      assertions_to_confidences = [type_example \<mapsto> 0.5]\<rparr> =
   (Inl (CheckArgFailed ''Type assertions should not have confidences in ColdStart''),
    snd (translate_all example_lut (URIRef ''sys'')
           \<lparr>all_assertions = [link_example, type_example, mention_example],
            assertions_to_confidences = [type_example \<mapsto> 0.5]\<rparr>
           [link_example] (initial_state (from_parameters None))))
   \<and> g (snd (translate_all example_lut (URIRef ''sys'')
           \<lparr>all_assertions = [link_example, type_example, mention_example],
            assertions_to_confidences = [type_example \<mapsto> 0.5]\<rparr>
           [link_example] (initial_state (from_parameters None)))) =
     {(BNode 0, NsRef AIDA ''link'', BNode 1),
      (BNode 1, NsRef AIDA ''linkTarget'', Literal (LitStr ''Q42''))}"
proof -
  let ?kb = "\<lparr>all_assertions = [link_example, type_example, mention_example],
      assertions_to_confidences = [type_example \<mapsto> 0.5]\<rparr>"
  have order: "all_assertions ?kb =
      [link_example] @ TypeAssertion (EntityNode ''e1'') ''PER'' # [mention_example]"
    by (simp add: example_defs)
  have scored: "assertions_to_confidences ?kb (TypeAssertion (EntityNode ''e1'') ''PER'') = Some 0.5"
    by (simp add: example_defs)
  have before: "translate_all example_lut (URIRef ''sys'') ?kb [link_example]
        (initial_state (from_parameters None)) =
      (Inr (), snd (translate_all example_lut (URIRef ''sys'') ?kb [link_example]
        (initial_state (from_parameters None))))"
    by (simp add: example_defs conv_defs)
  have graph: "g (snd (translate_all example_lut (URIRef ''sys'') ?kb [link_example]
        (initial_state (from_parameters None)))) =
     {(BNode 0, NsRef AIDA ''link'', BNode 1),
      (BNode 1, NsRef AIDA ''linkTarget'', Literal (LitStr ''Q42''))}"
    by (auto simp add: example_defs conv_defs)
  from type_assertion_with_confidence_fails [OF order scored before] graph
  show ?thesis by simp
qed

subsection \<open>C6: the ontology types\<close>

text \<open>
  Claim C6: \<^verbatim>\<open>to_ontology_type\<close> maps PER to Person, ORG to Organization, LOC to
  Location, FAC to Facility, GPE to GeopoliticalEntity and STRING or String to String; a
  code with a colon fails as not implemented; any other code gives its entry of the
  table \<open>lut\<close> when it has one and fails as not interpretable otherwise.
\<close>

theorem to_ontology_type_table:
  "to_ontology_type lut ''PER'' = Inr (NsRef AIDA_PROGRAM_ONTOLOGY ''Person'')
   \<and> to_ontology_type lut ''ORG'' = Inr (NsRef AIDA_PROGRAM_ONTOLOGY ''Organization'')
   \<and> to_ontology_type lut ''LOC'' = Inr (NsRef AIDA_PROGRAM_ONTOLOGY ''Location'')
   \<and> to_ontology_type lut ''FAC'' = Inr (NsRef AIDA_PROGRAM_ONTOLOGY ''Facility'')
   \<and> to_ontology_type lut ''GPE'' = Inr (NsRef AIDA_PROGRAM_ONTOLOGY ''GeopoliticalEntity'')
   \<and> to_ontology_type lut ''STRING'' = Inr (NsRef AIDA_PROGRAM_ONTOLOGY ''String'')
   \<and> to_ontology_type lut ''String'' = Inr (NsRef AIDA_PROGRAM_ONTOLOGY ''String'')
   \<and> (CHR '':'' \<in> set qualified
        \<longrightarrow> to_ontology_type lut qualified = Inl (NotImplementedError ''Not implemented yet''))
   \<and> (CHR '':'' \<notin> set code
        \<and> code \<notin> {''PER'', ''ORG'', ''LOC'', ''FAC'', ''GPE'', ''STRING'', ''String''}
        \<longrightarrow> to_ontology_type lut code =
            (case lut code of
               Some t \<Rightarrow> Inr t
             | None \<Rightarrow> Inl (NotImplementedError (''Cannot interpret ontology type '' @ code))))"
  by (simp add: to_ontology_type_def)

theorem to_ontology_type_table_witness:
  "CHR '':'' \<in> set ''ldcOnt:PER''
   \<and> to_ontology_type example_lut ''ldcOnt:PER'' = Inl (NotImplementedError ''Not implemented yet'')
   \<and> CHR '':'' \<notin> set ''partOf''
   \<and> ''partOf'' \<notin> {''PER'', ''ORG'', ''LOC'', ''FAC'', ''GPE'', ''STRING'', ''String''}
   \<and> to_ontology_type example_lut ''partOf'' = Inr (NsRef AIDA_PROGRAM_ONTOLOGY ''partOf'')
   \<and> CHR '':'' \<notin> set ''VEH''
   \<and> ''VEH'' \<notin> {''PER'', ''ORG'', ''LOC'', ''FAC'', ''GPE'', ''STRING'', ''String''}
   \<and> to_ontology_type example_lut ''VEH'' =
       Inl (NotImplementedError ''Cannot interpret ontology type VEH'')"
  using to_ontology_type_table [of example_lut "''ldcOnt:PER''" "''partOf''"]
    to_ontology_type_table [of example_lut "''ldcOnt:PER''" "''VEH''"]
  by (simp add: example_lut_def)

subsection \<open>C7: offsets of a justification\<close>

text \<open>
  Claim C7: for every span that \<^verbatim>\<open>register_justifications\<close> encodes, a blank node minted
  by the call is typed as text provenance and records the start of the span unchanged and
  its end plus one. Conversely every end offset the call adds to the graph is the end
  plus one of a span whose start is recorded on the same node. A span from 10 to 15 is
  recorded as 10 and 16.
\<close>

theorem register_justifications_offsets:
  "(\<forall>i<length (predicate_justifications provenance).
      \<exists>k. bnodes_minted s \<le> k
        \<and> k < bnodes_minted (register_justifications system_node entity provenance string confidence s)
        \<and> (BNode k, NsRef RDF ''type'', NsRef AIDA ''TextProvenance'')
            \<in> g (register_justifications system_node entity provenance string confidence s)
        \<and> (BNode k, NsRef AIDA ''startOffset'',
             Literal (LitInt (span_start (predicate_justifications provenance ! i))))
            \<in> g (register_justifications system_node entity provenance string confidence s)
        \<and> (BNode k, NsRef AIDA ''endOffsetInclusive'',
             Literal (LitInt (span_end (predicate_justifications provenance ! i) + 1)))
            \<in> g (register_justifications system_node entity provenance string confidence s))
   \<and> (\<forall>n v. (n, NsRef AIDA ''endOffsetInclusive'', v)
              \<in> g (register_justifications system_node entity provenance string confidence s)
            \<and> (n, NsRef AIDA ''endOffsetInclusive'', v) \<notin> g s
        \<longrightarrow> (\<exists>j\<in>set (predicate_justifications provenance).
               v = Literal (LitInt (span_end j + 1))
               \<and> (n, NsRef AIDA ''startOffset'', Literal (LitInt (span_start j)))
                   \<in> g (register_justifications system_node entity provenance string confidence s)))"
proof (intro conjI allI impI)
  fix i
  assume i: "i < length (predicate_justifications provenance)"
  let ?k = "bnodes_minted s + i * confidence_step confidence"
  have "Suc i \<le> length (predicate_justifications provenance)"
    using i by simp
  then have "Suc i * confidence_step confidence
          \<le> length (predicate_justifications provenance) * confidence_step confidence"
    by (rule mult_le_mono1)
  moreover have "i * confidence_step confidence < Suc i * confidence_step confidence"
    using confidence_step_pos [of confidence] by simp
  ultimately have bound: "?k < bnodes_minted
      (register_justifications system_node entity provenance string confidence s)"
    unfolding register_justifications_bnodes by linarith
  show "\<exists>k. bnodes_minted s \<le> k
        \<and> k < bnodes_minted (register_justifications system_node entity provenance string confidence s)
        \<and> (BNode k, NsRef RDF ''type'', NsRef AIDA ''TextProvenance'')
            \<in> g (register_justifications system_node entity provenance string confidence s)
        \<and> (BNode k, NsRef AIDA ''startOffset'',
             Literal (LitInt (span_start (predicate_justifications provenance ! i))))
            \<in> g (register_justifications system_node entity provenance string confidence s)
        \<and> (BNode k, NsRef AIDA ''endOffsetInclusive'',
             Literal (LitInt (span_end (predicate_justifications provenance ! i) + 1)))
            \<in> g (register_justifications system_node entity provenance string confidence s)"
    using bound
      register_justifications_nth [OF i, where sys = system_node and e = entity
        and lbl = string and conf = confidence and s = s]
      justification_triples_basic [where k = ?k and sys = system_node and e = entity
        and p = provenance and lbl = string and conf = confidence
        and j = "predicate_justifications provenance ! i"]
    by (intro exI [of _ ?k]) auto
next
  fix n v
  assume new: "(n, NsRef AIDA ''endOffsetInclusive'', v)
              \<in> g (register_justifications system_node entity provenance string confidence s)
            \<and> (n, NsRef AIDA ''endOffsetInclusive'', v) \<notin> g s"
  then obtain i where i: "i < length (predicate_justifications provenance)"
    and mem: "(n, NsRef AIDA ''endOffsetInclusive'', v)
       \<in> justification_triples system_node entity provenance string confidence
           (bnodes_minted s + i * confidence_step confidence)
           (predicate_justifications provenance ! i)"
    by (auto simp add: register_justifications_g)
  from justification_triples_end [OF mem]
  have n: "n = BNode (bnodes_minted s + i * confidence_step confidence)"
    and v: "v = Literal (LitInt (span_end (predicate_justifications provenance ! i) + 1))"
    by simp_all
  have "(n, NsRef AIDA ''startOffset'',
          Literal (LitInt (span_start (predicate_justifications provenance ! i))))
        \<in> g (register_justifications system_node entity provenance string confidence s)"
    using n
      register_justifications_nth [OF i, where sys = system_node and e = entity
        and lbl = string and conf = confidence and s = s]
      justification_triples_basic(2) [where sys = system_node and e = entity
        and k = "bnodes_minted s + i * confidence_step confidence"
        and p = provenance and lbl = string and conf = confidence
        and j = "predicate_justifications provenance ! i"]
    by auto
  with i v show "\<exists>j\<in>set (predicate_justifications provenance).
               v = Literal (LitInt (span_end j + 1))
               \<and> (n, NsRef AIDA ''startOffset'', Literal (LitInt (span_start j)))
                   \<in> g (register_justifications system_node entity provenance string confidence s)"
    by (intro bexI [of _ "predicate_justifications provenance ! i"]) simp_all
qed

theorem register_justifications_offsets_witness:
  "\<exists>k. (BNode k, NsRef AIDA ''startOffset'', Literal (LitInt 10))
          \<in> g (register_justifications (URIRef ''sys'') (URIRef ''e'')
                 (Provenance ''D1'' [Span 10 15]) None None blank_start)
      \<and> (BNode k, NsRef AIDA ''endOffsetInclusive'', Literal (LitInt 16))
          \<in> g (register_justifications (URIRef ''sys'') (URIRef ''e'')
                 (Provenance ''D1'' [Span 10 15]) None None blank_start)"
proof -
  have one: "0 < length (predicate_justifications (Provenance ''D1'' [Span 10 15]))"
    by simp
  from register_justifications_offsets [THEN conjunct1, rule_format, OF one,
      of blank_start "URIRef ''sys''" "URIRef ''e''" None None]
  show ?thesis by auto
qed

subsection \<open>C8: confidence nodes are tagged with the system\<close>

text \<open>
  Claim C8: every confidence node minted while an assertion is translated has exactly one
  \<^verbatim>\<open>AIDA.system\<close> triple, to the system node of the run.

  The code does this only in \<^verbatim>\<open>mark_single_assertion_confidence\<close>, which
  \<^verbatim>\<open>register_justifications\<close> calls. \<^verbatim>\<open>translate_relation\<close>,
  \<^verbatim>\<open>translate_event_argument\<close> and \<^verbatim>\<open>translate_link\<close> mint their confidence node
  themselves and add the confidence and the value only. For a link with confidence 0.5
  the graph has four triples, and the confidence node \<open>BNode 2\<close> is the subject of no
  \<^verbatim>\<open>AIDA.system\<close> triple.
\<close>

theorem link_confidence_node_untagged:
  "fst (convert_coldstart_to_gaia example_lut (from_parameters None) ''sys''
     \<lparr>all_assertions = [link_example],
      assertions_to_confidences = [link_example \<mapsto> 0.5]\<rparr>) =
   Inr {(BNode 0, NsRef AIDA ''link'', BNode 1),
        (BNode 1, NsRef AIDA ''linkTarget'', Literal (LitStr ''Q42'')),
        (BNode 1, NsRef AIDA ''confidence'', BNode 2),
        (BNode 2, NsRef AIDA ''confidenceValue'', Literal (LitFloat 0.5))}
   \<and> (\<forall>x. (BNode 2, NsRef AIDA ''system'', x) \<notin>
          {(BNode 0, NsRef AIDA ''link'', BNode 1),
           (BNode 1, NsRef AIDA ''linkTarget'', Literal (LitStr ''Q42'')),
           (BNode 1, NsRef AIDA ''confidence'', BNode 2),
           (BNode 2, NsRef AIDA ''confidenceValue'', Literal (LitFloat 0.5))})"
  by (auto simp add: example_defs conv_defs numeral_2_eq_2)

subsection \<open>C9: an entity mention is attached to its own subject\<close>


subsection \<open>C10: a confidence of zero is treated as absent by the encoder\<close>

text \<open>
  Claim C10: called with the confidence 0.0, \<^verbatim>\<open>register_justifications\<close> does what it
  does without a confidence: it adds no \<^verbatim>\<open>AIDA.confidence\<close> triple and mints one blank
  node per span. Called with a confidence above zero it mints two blank nodes per span,
  and the provenance node of every span has a confidence node with that value.
\<close>

theorem register_justifications_zero_confidence:
  "register_justifications system_node entity provenance string (Some 0) s =
     register_justifications system_node entity provenance string None s
   \<and> {t \<in> g (register_justifications system_node entity provenance string (Some 0) s).
         fst (snd t) = NsRef AIDA ''confidence''} =
       {t \<in> g s. fst (snd t) = NsRef AIDA ''confidence''}
   \<and> bnodes_minted (register_justifications system_node entity provenance string (Some 0) s) =
       bnodes_minted s + length (predicate_justifications provenance)
   \<and> (0 < c \<longrightarrow>
        bnodes_minted (register_justifications system_node entity provenance string (Some c) s) =
          bnodes_minted s + 2 * length (predicate_justifications provenance)
        \<and> (\<forall>i<length (predicate_justifications provenance).
            (BNode (bnodes_minted s + 2 * i), NsRef RDF ''type'', NsRef AIDA ''TextProvenance'')
              \<in> g (register_justifications system_node entity provenance string (Some c) s)
            \<and> (BNode (bnodes_minted s + 2 * i), NsRef AIDA ''confidence'',
                 BNode (bnodes_minted s + 2 * i + 1))
              \<in> g (register_justifications system_node entity provenance string (Some c) s)
            \<and> (BNode (bnodes_minted s + 2 * i + 1), NsRef AIDA ''confidenceValue'',
                 Literal (LitFloat c))
              \<in> g (register_justifications system_node entity provenance string (Some c) s)))"
proof (intro conjI allI impI)
  show "register_justifications system_node entity provenance string (Some 0) s =
     register_justifications system_node entity provenance string None s"
    by (simp add: register_justifications_def register_loop_zero)
next
  show "{t \<in> g (register_justifications system_node entity provenance string (Some 0) s).
         fst (snd t) = NsRef AIDA ''confidence''} =
       {t \<in> g s. fst (snd t) = NsRef AIDA ''confidence''}"
    by (auto simp add: register_justifications_g justification_triples_zero)
next
  show "bnodes_minted (register_justifications system_node entity provenance string (Some 0) s) =
       bnodes_minted s + length (predicate_justifications provenance)"
    by (simp add: register_justifications_bnodes confidence_step_def)
next
  assume "0 < c"
  then show "bnodes_minted (register_justifications system_node entity provenance string (Some c) s) =
          bnodes_minted s + 2 * length (predicate_justifications provenance)"
    by (simp add: register_justifications_bnodes confidence_step_def)
next
  fix i
  assume c: "0 < c" and i: "i < length (predicate_justifications provenance)"
  then have step: "confidence_step (Some c) = 2" and nz: "c \<noteq> 0"
    by (simp_all add: confidence_step_def)
  have sub: "justification_triples system_node entity provenance string (Some c)
               (bnodes_minted s + 2 * i) (predicate_justifications provenance ! i)
             \<subseteq> g (register_justifications system_node entity provenance string (Some c) s)"
    using register_justifications_nth [OF i, where sys = system_node and e = entity
        and lbl = string and conf = "Some c" and s = s]
    by (simp add: step mult.commute)
  show "(BNode (bnodes_minted s + 2 * i), NsRef RDF ''type'', NsRef AIDA ''TextProvenance'')
              \<in> g (register_justifications system_node entity provenance string (Some c) s)"
    using sub justification_triples_basic(1) by blast
  show "(BNode (bnodes_minted s + 2 * i), NsRef AIDA ''confidence'',
                 BNode (bnodes_minted s + 2 * i + 1))
              \<in> g (register_justifications system_node entity provenance string (Some c) s)"
    using sub justification_triples_confidence(1) [OF nz] by blast
  show "(BNode (bnodes_minted s + 2 * i + 1), NsRef AIDA ''confidenceValue'',
                 Literal (LitFloat c))
              \<in> g (register_justifications system_node entity provenance string (Some c) s)"
    using sub justification_triples_confidence(2) [OF nz] by blast
qed

theorem register_justifications_zero_confidence_witness:
  "(0::real) < 0.9
   \<and> (BNode 0, NsRef RDF ''type'', NsRef AIDA ''TextProvenance'')
       \<in> g (register_justifications (URIRef ''sys'') (URIRef ''e'')
              (Provenance ''D1'' [Span 0 5]) None (Some 0.9) blank_start)
   \<and> (BNode 0, NsRef AIDA ''confidence'', BNode 1)
       \<in> g (register_justifications (URIRef ''sys'') (URIRef ''e'')
              (Provenance ''D1'' [Span 0 5]) None (Some 0.9) blank_start)
   \<and> (BNode 1, NsRef AIDA ''confidenceValue'', Literal (LitFloat 0.9))
       \<in> g (register_justifications (URIRef ''sys'') (URIRef ''e'')
              (Provenance ''D1'' [Span 0 5]) None (Some 0.9) blank_start)
   \<and> {t \<in> g (register_justifications (URIRef ''sys'') (URIRef ''e'')
                (Provenance ''D1'' [Span 0 5]) None (Some 0) blank_start).
        fst (snd t) = NsRef AIDA ''confidence''} = {}"
proof -
  have pos: "(0::real) < 0.9" by simp
  have one: "0 < length (predicate_justifications (Provenance ''D1'' [Span 0 5]))"
    by simp
  have empty: "g blank_start = {}" "bnodes_minted blank_start = 0"
    by (simp_all add: example_defs conv_defs)
  note fact = register_justifications_zero_confidence
      [of "URIRef ''sys''" "URIRef ''e''" "Provenance ''D1'' [Span 0 5]" None blank_start "0.9"]
  from fact [THEN conjunct2, THEN conjunct2, THEN conjunct2, rule_format, OF pos,
      THEN conjunct2, rule_format, OF one]
    fact [THEN conjunct2, THEN conjunct1] pos
  show ?thesis by (simp add: empty)
qed

end
